theory Spec2Isabelle
  imports Main "HOL-Library.AList"
begin

section \<open>The Lance datasource: data model\<close>

text \<open>
  A shallow embedding of \<^verbatim>\<open>src/lance_ray/datasource.py\<close>. Python exceptions are
  values of \<open>exn\<close> (the constructor is the exception class, the argument is what
  \<^verbatim>\<open>str(e)\<close> returns); a function that may raise returns \<open>exn + 'a\<close>.
\<close>

datatype exn =
    ImportError string
  | ValueError string
  | AssertionError string
  | RuntimeError string

fun str_exn :: "exn \<Rightarrow> string" where
  "str_exn (ImportError m) = m"
| "str_exn (ValueError m) = m"
| "str_exn (AssertionError m) = m"
| "str_exn (RuntimeError m) = m"

text \<open>
  What the adapter reads of a Lance fragment: \<^verbatim>\<open>f.metadata.id\<close>, \<^verbatim>\<open>f.count_rows()\<close>
  (called with no filter argument), \<^verbatim>\<open>f.data_files()\<close> and \<^verbatim>\<open>f.schema\<close>.
\<close>

type_synonym arrow_schema = "(string \<times> string) list"

record data_file =
  path :: string

record lance_fragment =
  fragment_id :: int
  count_rows :: nat
  data_files :: "data_file list"
  frag_schema :: arrow_schema

record lance_dataset =
  ds_fragments :: "lance_fragment list"

definition get_fragments :: "lance_dataset \<Rightarrow> lance_fragment list" where
  "get_fragments ds = ds_fragments ds"

text \<open>\<^verbatim>\<open>lance_ds.get_fragment(id)\<close> answers \<^verbatim>\<open>None\<close> for an identifier the dataset
  does not have.\<close>

definition get_fragment :: "lance_dataset \<Rightarrow> int \<Rightarrow> lance_fragment option" where
  "get_fragment ds i = find (\<lambda>f. fragment_id f = i) (ds_fragments ds)"

text \<open>
  Python dictionaries are mutable objects: a dictionary lives in the heap at an address,
  and two variables holding the same address see each other's writes. The heap is the
  list of all dictionaries allocated so far, an address is an index into it. A dictionary
  is the list of its items in insertion order; \<open>AList.update\<close> replaces the value of
  a key that is present where it stands and appends a new key, as \<^verbatim>\<open>d[k] = v\<close> does.
\<close>

datatype pyval =
    PyNone
  | PyInt int
  | PyStr string
  | PyStrList "string list"
  | PyFragments "lance_fragment option list"

type_synonym pydict = "(string \<times> pyval) list"
type_synonym addr = nat
type_synonym heap = "pydict list"

definition alloc :: "heap \<Rightarrow> pydict \<Rightarrow> addr \<times> heap" where
  "alloc h d = (length h, h @ [d])"

definition setitem :: "heap \<Rightarrow> addr \<Rightarrow> string \<Rightarrow> pyval \<Rightarrow> heap" where
  "setitem h a k v = h[a := AList.update k v (h ! a)]"

record retry_params =
  description :: string
  match_errors :: "string list"
  max_attempts :: nat
  max_backoff_s :: nat

record block_metadata =
  num_rows :: nat
  schema :: arrow_schema
  input_files :: "string list"
  size_bytes :: "nat option"
  exec_stats :: "string option"

text \<open>
  The \<^verbatim>\<open>lambda\<close> that \<^verbatim>\<open>create_read_task\<close> builds, as the record of the variables it
  captures. The scanner options are captured as the address of the dictionary.
\<close>

record read_fn_closure =
  cl_fragment_ids :: "int list"
  cl_lance_ds :: lance_dataset
  cl_scanner_options :: addr
  cl_retry_params :: retry_params

record read_task =
  read_fn :: read_fn_closure
  metadata :: block_metadata

record lance_datasource =
  uri :: string
  scanner_options :: addr
  storage_options :: "(string \<times> string) list option"
  lance_ds :: lance_dataset
  retry_params_of :: retry_params

section \<open>Constructing the datasource\<close>

text \<open>
  What \<^verbatim>\<open>__init__\<close> reads of the process it runs in: whether the \<^verbatim>\<open>lance\<close> module can be
  imported, what \<^verbatim>\<open>lance.dataset(uri=..., storage_options=...)\<close> answers, and the list
  \<^verbatim>\<open>DataContext.get_current().retried_io_errors\<close>.
\<close>

record environment =
  lance_installed :: bool
  lance_open :: "string \<Rightarrow> (string \<times> string) list option \<Rightarrow> exn + lance_dataset"
  retried_io_errors :: "string list"

definition READ_FRAGMENTS_ERRORS_TO_RETRY :: "string list" where
  "READ_FRAGMENTS_ERRORS_TO_RETRY = [''LanceError(IO)'']"

definition READ_FRAGMENTS_MAX_ATTEMPTS :: nat where
  "READ_FRAGMENTS_MAX_ATTEMPTS = 10"

definition READ_FRAGMENTS_RETRY_MAX_BACKOFF_SECONDS :: nat where
  "READ_FRAGMENTS_RETRY_MAX_BACKOFF_SECONDS = 32"

text \<open>
  \<^verbatim>\<open>scanner_options or {}\<close>: the argument itself when it is a dictionary with at least one
  item, a new empty dictionary when it is \<^verbatim>\<open>None\<close> or an empty dictionary (an empty
  dictionary is false in Python).
\<close>

definition or_new_dict :: "heap \<Rightarrow> addr option \<Rightarrow> addr \<times> heap" where
  "or_new_dict h arg =
     (case arg of
        None \<Rightarrow> alloc h []
      | Some a \<Rightarrow> if h ! a = [] then alloc h [] else (a, h))"

text \<open>
  The constructor returns the new object, or the exception raised, together with the heap
  it leaves. The writes to the options dictionary come before the dataset is opened, so
  they stay when the opening raises. The \<^verbatim>\<open>ImportError\<close> of \<^verbatim>\<open>_check_import\<close> carries
  the name of the package here, not the whole sentence of the library.
\<close>

definition LanceDatasource_init ::
  "environment \<Rightarrow> heap \<Rightarrow> string \<Rightarrow> string list option \<Rightarrow> string option
     \<Rightarrow> (string \<times> string) list option \<Rightarrow> addr option
     \<Rightarrow> (exn + lance_datasource) \<times> heap" where
  "LanceDatasource_init env h uri_arg columns filter_arg storage_opts scanner_opts =
     (if \<not> lance_installed env then (Inl (ImportError ''pylance''), h)
      else
        let (so, h1) = or_new_dict h scanner_opts;
            h2 = (case columns of None \<Rightarrow> h1
                  | Some c \<Rightarrow> setitem h1 so ''columns'' (PyStrList c));
            h3 = (case filter_arg of None \<Rightarrow> h2
                  | Some f \<Rightarrow> setitem h2 so ''filter'' (PyStr f))
        in case lance_open env uri_arg storage_opts of
             Inl e \<Rightarrow> (Inl e, h3)
           | Inr ds \<Rightarrow>
               let match = READ_FRAGMENTS_ERRORS_TO_RETRY @ retried_io_errors env
               in (Inr \<lparr>uri = uri_arg, scanner_options = so,
                         storage_options = storage_opts, lance_ds = ds,
                         retry_params_of =
                           \<lparr>description = ''read lance fragments'',
                            match_errors = match,
                            max_attempts = READ_FRAGMENTS_MAX_ATTEMPTS,
                            max_backoff_s = READ_FRAGMENTS_RETRY_MAX_BACKOFF_SECONDS\<rparr>\<rparr>,
                   h3))"

section \<open>Splitting the fragment list\<close>

text \<open>
  \<^verbatim>\<open>np.array_split(ary, n)\<close> for an integer \<^verbatim>\<open>n\<close>. The function belongs to the
  numerical library, not to this repository; the model follows the library's algorithm:
  \<^verbatim>\<open>
  Nsections = int(indices_or_sections)
  if Nsections <= 0:
      raise ValueError('number sections must be larger than 0.')
  Neach_section, extras = divmod(Ntotal, Nsections)
  section_sizes = ([0] + extras * [Neach_section+1] +
                   (Nsections-extras) * [Neach_section])
  div_points = array(section_sizes).cumsum()
  for i in range(Nsections):
      st = div_points[i]; end = div_points[i + 1]
      sub_arys.append(sary[st:end])
  \<close>
\<close>

fun cumsum_from :: "nat \<Rightarrow> nat list \<Rightarrow> nat list" where
  "cumsum_from acc [] = []"
| "cumsum_from acc (x # xs) = (acc + x) # cumsum_from (acc + x) xs"

definition cumsum :: "nat list \<Rightarrow> nat list" where
  "cumsum xs = cumsum_from 0 xs"

definition section_sizes :: "nat \<Rightarrow> nat \<Rightarrow> nat list" where
  "section_sizes Ntotal Nsections =
     (let Neach_section = Ntotal div Nsections; extras = Ntotal mod Nsections
      in [0] @ replicate extras (Neach_section + 1)
             @ replicate (Nsections - extras) Neach_section)"

text \<open>The slice \<^verbatim>\<open>sary[st:end]\<close> for indices that are not negative.\<close>

definition slice :: "'a list \<Rightarrow> nat \<Rightarrow> nat \<Rightarrow> 'a list" where
  "slice xs st en = drop st (take en xs)"

definition array_split :: "'a list \<Rightarrow> int \<Rightarrow> exn + 'a list list" where
  "array_split ary indices_or_sections =
     (if indices_or_sections \<le> 0
      then Inl (ValueError ''number sections must be larger than 0.'')
      else
        let Nsections = nat indices_or_sections;
            div_points = cumsum (section_sizes (length ary) Nsections)
        in Inr (map (\<lambda>i. slice ary (div_points ! i) (div_points ! (i + 1)))
                    [0..<Nsections]))"

section \<open>Planning the read tasks\<close>

definition create_read_task ::
  "int list \<Rightarrow> lance_dataset \<Rightarrow> addr \<Rightarrow> retry_params \<Rightarrow> block_metadata \<Rightarrow> read_task" where
  "create_read_task fragment_ids ds opts rp md =
     \<lparr>read_fn = \<lparr>cl_fragment_ids = fragment_ids, cl_lance_ds = ds,
                 cl_scanner_options = opts, cl_retry_params = rp\<rparr>,
      metadata = md\<rparr>"

text \<open>The body of the \<^verbatim>\<open>for\<close> loop of \<^verbatim>\<open>get_read_tasks\<close>, for one group that is
  not empty.\<close>

definition group_read_task :: "lance_datasource \<Rightarrow> lance_fragment list \<Rightarrow> read_task" where
  "group_read_task self fragments =
     (let fragment_ids = map fragment_id fragments;
          n = sum_list (map count_rows fragments);
          files = concat (map (\<lambda>f. map path (data_files f)) fragments);
          md = \<lparr>num_rows = n, schema = frag_schema (fragments ! 0),
                input_files = files, size_bytes = None, exec_stats = None\<rparr>
      in create_read_task fragment_ids (lance_ds self) (scanner_options self)
           (retry_params_of self) md)"

fun read_tasks_loop ::
  "lance_datasource \<Rightarrow> lance_fragment list list \<Rightarrow> read_task list \<Rightarrow> read_task list" where
  "read_tasks_loop self [] read_tasks = read_tasks"
| "read_tasks_loop self (fragments # rest) read_tasks =
     (if length fragments \<le> 0 then read_tasks_loop self rest read_tasks
      else read_tasks_loop self rest (read_tasks @ [group_read_task self fragments]))"

definition get_read_tasks :: "lance_datasource \<Rightarrow> int \<Rightarrow> exn + read_task list" where
  "get_read_tasks self parallelism =
     (case array_split (get_fragments (lance_ds self)) parallelism of
        Inl e \<Rightarrow> Inl e
      | Inr groups \<Rightarrow> Inr (read_tasks_loop self groups []))"

definition estimate_inmemory_data_size :: "lance_datasource \<Rightarrow> nat option" where
  "estimate_inmemory_data_size self = None"

section \<open>Reading a group of fragments\<close>

text \<open>
  The world a read runs in: the heap of dictionaries, what the storage will answer to the
  scans still to come (one entry for each call of \<^verbatim>\<open>lance_ds.scanner(...)\<close>, in order),
  the keyword arguments of the scans made so far, and the upper bounds of the backoff
  sleeps made so far.
\<close>

type_synonym record_batch = "string list"
type_synonym table = "record_batch list"

datatype scan_outcome =
    ScannerRaises exn
  | Reader "(exn + record_batch) list"

record world =
  dicts :: heap
  scans :: "scan_outcome list"
  scan_calls :: "pydict list"
  sleeps :: "nat list"

text \<open>\<^verbatim>\<open>lance_ds.scanner(**kwargs)\<close>: the next answer of the storage; a storage with no
  answer left gives a reader with no batch.\<close>

definition scanner :: "pydict \<Rightarrow> world \<Rightarrow> scan_outcome \<times> world" where
  "scanner kwargs w =
     (case scans w of
        [] \<Rightarrow> (Reader [], w\<lparr>scan_calls := scan_calls w @ [kwargs]\<rparr>)
      | out # rest \<Rightarrow> (out, w\<lparr>scans := rest, scan_calls := scan_calls w @ [kwargs]\<rparr>))"

text \<open>
  \<^verbatim>\<open>for batch in scanner.to_reader(): yield pa.Table.from_batches([batch])\<close>, run to
  its end: the tables yielded, and the exception that ended the iteration if one did.
\<close>

fun read_batches :: "(exn + record_batch) list \<Rightarrow> table list \<times> exn option" where
  "read_batches [] = ([], None)"
| "read_batches (Inl e # rest) = ([], Some e)"
| "read_batches (Inr batch # rest) =
     (case read_batches rest of (tables, err) \<Rightarrow> ([batch] # tables, err))"

text \<open>
  \<^verbatim>\<open>_read_fragments\<close> contains \<^verbatim>\<open>yield\<close>: calling it runs none of its body and returns a
  generator object holding the arguments. The body runs when the generator is iterated;
  \<open>drain\<close> iterates it to its end.
\<close>

datatype generator = Generator "int list" lance_dataset addr

definition read_fragments :: "int list \<Rightarrow> lance_dataset \<Rightarrow> addr \<Rightarrow> generator" where
  "read_fragments fragment_ids ds opts = Generator fragment_ids ds opts"

fun drain :: "generator \<Rightarrow> world \<Rightarrow> (table list \<times> exn option) \<times> world" where
  "drain (Generator fragment_ids ds opts) w =
     (let fragments = map (get_fragment ds) fragment_ids;
          w1 = w\<lparr>dicts := setitem (dicts w) opts ''fragments'' (PyFragments fragments)\<rparr>
      in case scanner (dicts w1 ! opts) w1 of
           (ScannerRaises e, w2) \<Rightarrow> (([], Some e), w2)
         | (Reader items, w2) \<Rightarrow> (read_batches items, w2))"

text \<open>\<^verbatim>\<open>pattern in str(e)\<close>: the pattern occurs in the message as a substring.\<close>

fun py_in :: "string \<Rightarrow> string \<Rightarrow> bool" where
  "py_in p [] = (p = [])"
| "py_in p (c # cs) = (take (length p) (c # cs) = p \<or> py_in p cs)"

definition is_retryable :: "string list \<Rightarrow> exn \<Rightarrow> bool" where
  "is_retryable match e = list_ex (\<lambda>pattern. py_in pattern (str_exn e)) match"

text \<open>
  \<^verbatim>\<open>call_with_retry(f, description, match=..., max_attempts=..., max_backoff_s=...)\<close>
  belongs to the engine, not to this repository; the model follows the engine's algorithm,
  called here with a list for \<^verbatim>\<open>match\<close>:
  \<^verbatim>\<open>
  assert max_attempts >= 1
  for i in range(max_attempts):
      try:
          return f()
      except Exception as e:
          is_retryable = match is None or any(pattern in str(e) for pattern in match)
          if is_retryable and i + 1 < max_attempts:
              backoff = min((2 ** (i + 1)), max_backoff_s) * random.random()
              time.sleep(backoff)
          else:
              raise e from None
  \<close>
  The sleep is recorded by its upper bound \<^verbatim>\<open>min(2 ** (i + 1), max_backoff_s)\<close>; the
  random factor lies between 0 and 1.
\<close>

function call_with_retry_from ::
  "(world \<Rightarrow> (exn + 'a) \<times> world) \<Rightarrow> string list \<Rightarrow> nat \<Rightarrow> nat \<Rightarrow> nat \<Rightarrow> world
     \<Rightarrow> (exn + 'a) \<times> world" where
  "call_with_retry_from f match max_att max_backoff i w =
     (let r = f w
      in if isl (fst r) \<and> is_retryable match (projl (fst r)) \<and> i + 1 < max_att
         then call_with_retry_from f match max_att max_backoff (i + 1)
                ((snd r)\<lparr>sleeps := sleeps (snd r) @ [min (2 ^ (i + 1)) max_backoff]\<rparr>)
         else r)"
  by pat_completeness auto
termination
  by (relation "measure (\<lambda>(f, match, max_att, max_backoff, i, w). max_att - i)") auto

definition call_with_retry ::
  "(world \<Rightarrow> (exn + 'a) \<times> world) \<Rightarrow> string \<Rightarrow> string list \<Rightarrow> nat \<Rightarrow> nat \<Rightarrow> world
     \<Rightarrow> (exn + 'a) \<times> world" where
  "call_with_retry f descr match max_att max_backoff w =
     (if \<not> 1 \<le> max_att then (Inl (AssertionError ''max_attempts must be positive''), w)
      else call_with_retry_from f match max_att max_backoff 0 w)"

definition read_fragments_with_retry ::
  "int list \<Rightarrow> lance_dataset \<Rightarrow> addr \<Rightarrow> retry_params \<Rightarrow> world \<Rightarrow> (exn + generator) \<times> world" where
  "read_fragments_with_retry fragment_ids ds opts rp w =
     call_with_retry (\<lambda>w'. (Inr (read_fragments fragment_ids ds opts), w'))
       (description rp) (match_errors rp) (max_attempts rp) (max_backoff_s rp) w"

text \<open>Calling the read function of a task: the \<^verbatim>\<open>lambda\<close> of \<^verbatim>\<open>create_read_task\<close>.\<close>

definition call_read_fn :: "read_task \<Rightarrow> world \<Rightarrow> (exn + generator) \<times> world" where
  "call_read_fn t w =
     read_fragments_with_retry (cl_fragment_ids (read_fn t)) (cl_lance_ds (read_fn t))
       (cl_scanner_options (read_fn t)) (cl_retry_params (read_fn t)) w"

text \<open>What the engine does with a task: call the read function and iterate the result
  to its end.\<close>

definition execute_read_task :: "read_task \<Rightarrow> world \<Rightarrow> (table list \<times> exn option) \<times> world" where
  "execute_read_task t w =
     (case call_read_fn t w of
        (Inl e, w') \<Rightarrow> (([], Some e), w')
      | (Inr g, w') \<Rightarrow> drain g w')"

section \<open>The groups of a split, by their sizes\<close>

text \<open>
  The slices of a list cut at the running sums of a list of sizes, and the sizes that
  \<open>array_split\<close> uses: \<open>F mod n\<close> groups of \<open>F div n + 1\<close> elements, then groups of
  \<open>F div n\<close> elements. The lemmas below show that \<open>array_split\<close> computes these.
\<close>

definition slices :: "'a list \<Rightarrow> nat list \<Rightarrow> 'a list list" where
  "slices xs ss = map (\<lambda>i. slice xs (sum_list (take i ss)) (sum_list (take (Suc i) ss))) [0..<length ss]"

definition split_sizes :: "nat \<Rightarrow> nat \<Rightarrow> nat list" where
  "split_sizes F n = replicate (F mod n) (F div n + 1) @ replicate (n - F mod n) (F div n)"

section \<open>A dataset of three fragments\<close>

definition ex_frag0 :: lance_fragment where
  "ex_frag0 = \<lparr>fragment_id = 0, count_rows = 100,
                data_files = [\<lparr>path = ''data/0a.lance''\<rparr>, \<lparr>path = ''data/0b.lance''\<rparr>],
                frag_schema = [(''a'', ''int64'')]\<rparr>"

definition ex_frag1 :: lance_fragment where
  "ex_frag1 = \<lparr>fragment_id = 1, count_rows = 100,
                data_files = [\<lparr>path = ''data/1.lance''\<rparr>],
                frag_schema = [(''a'', ''int64'')]\<rparr>"

definition ex_frag2 :: lance_fragment where
  "ex_frag2 = \<lparr>fragment_id = 2, count_rows = 50,
                data_files = [\<lparr>path = ''data/2.lance''\<rparr>],
                frag_schema = [(''a'', ''int64'')]\<rparr>"

definition ex_dataset :: lance_dataset where
  "ex_dataset = \<lparr>ds_fragments = [ex_frag0, ex_frag1, ex_frag2]\<rparr>"

definition ex_env :: environment where
  "ex_env = \<lparr>lance_installed = True, lance_open = (\<lambda>u s. Inr ex_dataset),
              retried_io_errors = [''AWS Error NETWORK_CONNECTION'']\<rparr>"

definition ex_retry_params :: retry_params where
  "ex_retry_params =
     \<lparr>description = ''read lance fragments'',
      match_errors = [''LanceError(IO)'', ''AWS Error NETWORK_CONNECTION''],
      max_attempts = 10, max_backoff_s = 32\<rparr>"

text \<open>The datasource that the constructor builds in an empty heap for this dataset, with
  the projection \<^verbatim>\<open>["a"]\<close> and the filter \<^verbatim>\<open>"a > 0"\<close>, and the heap it leaves.\<close>

definition ex_self :: lance_datasource where
  "ex_self = \<lparr>uri = ''memory://t'', scanner_options = 0, storage_options = None,
               lance_ds = ex_dataset, retry_params_of = ex_retry_params\<rparr>"

definition ex_heap :: heap where
  "ex_heap = [[(''columns'', PyStrList [''a'']), (''filter'', PyStr ''a > 0'')]]"

definition ex_task01 :: read_task where
  "ex_task01 =
     \<lparr>read_fn = \<lparr>cl_fragment_ids = [0, 1], cl_lance_ds = ex_dataset,
                 cl_scanner_options = 0, cl_retry_params = ex_retry_params\<rparr>,
      metadata = \<lparr>num_rows = 200, schema = [(''a'', ''int64'')],
                  input_files = [''data/0a.lance'', ''data/0b.lance'', ''data/1.lance''],
                  size_bytes = None, exec_stats = None\<rparr>\<rparr>"

definition ex_task2 :: read_task where
  "ex_task2 =
     \<lparr>read_fn = \<lparr>cl_fragment_ids = [2], cl_lance_ds = ex_dataset,
                 cl_scanner_options = 0, cl_retry_params = ex_retry_params\<rparr>,
      metadata = \<lparr>num_rows = 50, schema = [(''a'', ''int64'')],
                  input_files = [''data/2.lance''],
                  size_bytes = None, exec_stats = None\<rparr>\<rparr>"

text \<open>A storage whose first scan yields one batch and then fails with a transient I/O
  error, and whose second scan would yield both batches.\<close>

definition ex_io_error :: exn where
  "ex_io_error = RuntimeError ''LanceError(IO): connection reset by peer''"

definition ex_world :: world where
  "ex_world =
     \<lparr>dicts = ex_heap,
      scans = [Reader [Inr [''row1''], Inl ex_io_error],
               Reader [Inr [''row1''], Inr [''row2'']]],
      scan_calls = [], sleeps = []\<rparr>"

text \<open>The heap of a caller whose options dictionary already has a projection and a
  limit, and the world after the constructor has written the projection \<^verbatim>\<open>["a"]\<close> into
  that dictionary.\<close>

definition ex_caller_heap :: heap where
  "ex_caller_heap = [[(''columns'', PyStrList [''z'']), (''limit'', PyInt 10)]]"

definition ex_caller_world :: world where
  "ex_caller_world =
     \<lparr>dicts = [[(''columns'', PyStrList [''a'']), (''limit'', PyInt 10)]],
      scans = [], scan_calls = [], sleeps = []\<rparr>"

text \<open>
  For comparison only, not a function of the source: a callable that iterates the
  generator to its end inside the call and raises the exception that ended it. This is
  the callable that \<open>call_with_retry\<close> would have to be given for an error of the
  iteration to reach its \<^verbatim>\<open>except\<close> clause.
\<close>

definition drain_now :: "generator \<Rightarrow> world \<Rightarrow> (exn + table list) \<times> world" where
  "drain_now g w =
     (case drain g w of
        ((tables, None), w') \<Rightarrow> (Inr tables, w')
      | ((tables, Some e), w') \<Rightarrow> (Inl e, w'))"

section \<open>Properties of the split\<close>

lemma length_cumsum_from: "length (cumsum_from acc xs) = length xs"
  by (induction xs arbitrary: acc) auto

lemma nth_cumsum_from:
  "i < length xs \<Longrightarrow> cumsum_from acc xs ! i = acc + sum_list (take (Suc i) xs)"
proof (induction xs arbitrary: acc i)
  case Nil
  then show ?case by simp
next
  case (Cons x xs)
  then show ?case by (cases i) auto
qed

lemma nth_cumsum_zero_Cons:
  "i \<le> length ss \<Longrightarrow> cumsum (0 # ss) ! i = sum_list (take i ss)"
  by (cases i) (simp_all add: cumsum_def nth_cumsum_from)

lemma take_append_drop_take:
  "a \<le> b \<Longrightarrow> take a xs @ drop a (take b xs) = take b xs"
proof -
  assume "a \<le> b"
  then have "take a xs = take a (take b xs)" by (simp add: min_def)
  then show ?thesis by (metis append_take_drop_id)
qed

lemma sum_list_take_mono:
  "sum_list (take i (ss::nat list)) \<le> sum_list (take (Suc i) ss)"
proof (induction ss arbitrary: i)
  case Nil
  then show ?case by simp
next
  case (Cons s ss)
  then show ?case by (cases i) auto
qed

lemma sum_list_take_Suc:
  "i < length (ss::nat list) \<Longrightarrow> sum_list (take (Suc i) ss) = sum_list (take i ss) + ss ! i"
  by (simp add: take_Suc_conv_app_nth)

lemma sum_list_take_le:
  "sum_list (take i (ss::nat list)) \<le> sum_list ss"
  by (metis append_take_drop_id le_add1 sum_list.append)

lemma concat_slices_upto:
  "k \<le> length ss \<Longrightarrow>
   concat (map (\<lambda>i. slice xs (sum_list (take i ss)) (sum_list (take (Suc i) ss))) [0..<k])
     = take (sum_list (take k ss)) xs"
proof (induction k)
  case 0
  then show ?case by simp
next
  case (Suc k)
  then show ?case
    by (simp add: slice_def take_append_drop_take sum_list_take_mono)
qed

lemma length_slice_sizes:
  assumes "sum_list ss \<le> length xs" "i < length ss"
  shows "length (slice xs (sum_list (take i ss)) (sum_list (take (Suc i) ss))) = ss ! i"
proof -
  have "sum_list (take (Suc i) ss) \<le> length xs"
    using assms(1) sum_list_take_le [of "Suc i" ss] by linarith
  then show ?thesis
    using assms(2) by (simp add: slice_def sum_list_take_Suc)
qed

lemma section_sizes_tail_sum:
  "0 < n \<Longrightarrow> sum_list (replicate (F mod n) (F div n + 1) @ replicate (n - F mod n) (F div n)) = F"
proof -
  assume n: "0 < n"
  have "F mod n \<le> n" using n by (simp add: less_imp_le)
  then have "(F mod n) * (F div n + 1) + (n - F mod n) * (F div n) = n * (F div n) + F mod n"
    by (simp add: algebra_simps)
  then show ?thesis by (simp add: sum_list_replicate)
qed

lemma map_slice_cumsum:
  "map (\<lambda>i. slice xs (cumsum (0 # ss) ! i) (cumsum (0 # ss) ! (i + 1))) [0..<length ss]
     = slices xs ss"
  unfolding slices_def
proof (rule map_cong [OF refl])
  fix i assume "i \<in> set [0..<length ss]"
  then have "i \<le> length ss" "Suc i \<le> length ss" by simp_all
  then show "slice xs (cumsum (0 # ss) ! i) (cumsum (0 # ss) ! (i + 1))
           = slice xs (sum_list (take i ss)) (sum_list (take (Suc i) ss))"
    using nth_cumsum_zero_Cons [of i ss] nth_cumsum_zero_Cons [of "Suc i" ss] by simp
qed

lemma length_split_sizes: "0 < n \<Longrightarrow> length (split_sizes F n) = n"
  by (simp add: split_sizes_def less_imp_le)

lemma array_split_positive:
  assumes "0 < p"
  shows "array_split ary p = Inr (slices ary (split_sizes (length ary) (nat p)))"
proof -
  let ?n = "nat p"
  let ?ss = "split_sizes (length ary) ?n"
  have len: "length ?ss = ?n"
    using assms by (simp add: length_split_sizes)
  have "section_sizes (length ary) ?n = 0 # ?ss"
    by (simp add: section_sizes_def split_sizes_def Let_def)
  then show ?thesis
    using assms map_slice_cumsum [of ary ?ss] len by (simp add: array_split_def Let_def)
qed

lemma concat_slices: "sum_list ss = length xs \<Longrightarrow> concat (slices xs ss) = xs"
  using concat_slices_upto [of "length ss" ss xs] by (simp add: slices_def)

lemma map_length_slices: "sum_list ss \<le> length xs \<Longrightarrow> map length (slices xs ss) = ss"
  by (rule nth_equalityI) (simp_all add: slices_def length_slice_sizes)

lemma sum_split_sizes: "0 < n \<Longrightarrow> sum_list (split_sizes F n) = F"
  unfolding split_sizes_def by (rule section_sizes_tail_sum)

lemma set_split_sizes: "s \<in> set (split_sizes F n) \<Longrightarrow> s = F div n \<or> s = F div n + 1"
  by (auto simp: split_sizes_def)

lemma slices_are_slices: "g \<in> set (slices xs ss) \<Longrightarrow> \<exists>st en. g = slice xs st en"
  by (auto simp: slices_def)

lemma map_slice: "map f (slice xs st en) = slice (map f xs) st en"
  by (simp add: slice_def drop_map take_map)

lemma read_tasks_loop_eq:
  "read_tasks_loop self gs acc = acc @ map (group_read_task self) (filter (\<lambda>g. g \<noteq> []) gs)"
  by (induction gs arbitrary: acc) auto

lemma concat_filter_nonempty: "concat (filter (\<lambda>g. g \<noteq> []) gs) = concat gs"
  by (induction gs) auto

lemma length_filter_nonempty_le: "length (filter (\<lambda>g. g \<noteq> []) gs) \<le> length (concat gs)"
proof (induction gs)
  case Nil
  then show ?case by simp
next
  case (Cons g gs)
  then show ?case by (cases g) auto
qed

lemma task_ids_group: "cl_fragment_ids (read_fn (group_read_task self g)) = map fragment_id g"
  by (simp add: group_read_task_def create_read_task_def Let_def)

lemma get_read_tasks_positive:
  assumes "0 < p"
  shows "get_read_tasks self p =
     Inr (map (group_read_task self)
            (filter (\<lambda>g. g \<noteq> [])
               (slices (get_fragments (lance_ds self))
                  (split_sizes (length (get_fragments (lance_ds self))) (nat p)))))"
  using assms by (simp add: get_read_tasks_def array_split_positive read_tasks_loop_eq)

section \<open>The example, evaluated\<close>

lemma ex_init:
  "LanceDatasource_init ex_env [] ''memory://t'' (Some [''a'']) (Some ''a > 0'') None None
     = (Inr ex_self, ex_heap)"
  by (simp add: LanceDatasource_init_def ex_env_def or_new_dict_def alloc_def setitem_def
      ex_self_def ex_heap_def ex_retry_params_def READ_FRAGMENTS_ERRORS_TO_RETRY_def
      READ_FRAGMENTS_MAX_ATTEMPTS_def READ_FRAGMENTS_RETRY_MAX_BACKOFF_SECONDS_def)

lemma ex_tasks: "get_read_tasks ex_self 2 = Inr [ex_task01, ex_task2]"
  by code_simp

lemma ex_fragment_ids: "map fragment_id (get_fragments (lance_ds ex_self)) = [0, 1, 2]"
  by (simp add: ex_self_def ex_dataset_def get_fragments_def ex_frag0_def ex_frag1_def
      ex_frag2_def)

lemma ex_fragment_count: "length (get_fragments (lance_ds ex_self)) = 3"
  by (simp add: ex_self_def ex_dataset_def get_fragments_def)

section \<open>Partition of the fragments\<close>

text \<open>
  Claim C3. For a requested parallelism \<open>P\<close> of at least 1, \<open>get_read_tasks\<close> returns, and
  the number of read tasks is at most \<open>min F P\<close>, where \<open>F\<close> is the number of fragments
  of the dataset (empty groups give no task). The identifiers of the tasks, put one after
  the other in the order of the tasks, are the identifiers of the dataset's fragments in
  the dataset's order: every fragment is in one task and in one only.
\<close>

theorem get_read_tasks_partition:
  assumes "1 \<le> P"
  shows "\<exists>tasks. get_read_tasks self P = Inr tasks
           \<and> int (length tasks) \<le> min (int (length (get_fragments (lance_ds self)))) P
           \<and> concat (map (\<lambda>t. cl_fragment_ids (read_fn t)) tasks)
               = map fragment_id (get_fragments (lance_ds self))"
proof -
  let ?frs = "get_fragments (lance_ds self)"
  let ?ss = "split_sizes (length ?frs) (nat P)"
  let ?gs = "slices ?frs ?ss"
  let ?tasks = "map (group_read_task self) (filter (\<lambda>g. g \<noteq> []) ?gs)"
  have n: "0 < nat P" using assms by simp
  have tasks: "get_read_tasks self P = Inr ?tasks"
    using assms get_read_tasks_positive [of P self] by simp
  have cat: "concat ?gs = ?frs"
    using n by (simp add: concat_slices sum_split_sizes)
  have "length ?tasks \<le> length ?gs" by simp
  also have "length ?gs = nat P" using n by (simp add: slices_def length_split_sizes)
  finally have "length ?tasks \<le> nat P" .
  then have le_P: "int (length ?tasks) \<le> P" using assms by linarith
  have "length ?tasks \<le> length (concat ?gs)"
    using length_filter_nonempty_le [of ?gs] by simp
  then have le_F: "length ?tasks \<le> length ?frs" by (simp only: cat)
  have "concat (map (\<lambda>t. cl_fragment_ids (read_fn t)) ?tasks)
      = concat (map (map fragment_id) (filter (\<lambda>g. g \<noteq> []) ?gs))"
    by (simp add: o_def task_ids_group)
  also have "\<dots> = map fragment_id (concat (filter (\<lambda>g. g \<noteq> []) ?gs))"
    by (simp add: map_concat)
  also have "\<dots> = map fragment_id ?frs"
    by (simp only: concat_filter_nonempty cat)
  finally have ids: "concat (map (\<lambda>t. cl_fragment_ids (read_fn t)) ?tasks)
      = map fragment_id ?frs" .
  from le_P le_F have "int (length ?tasks) \<le> min (int (length ?frs)) P" by simp
  with tasks ids show ?thesis by blast
qed

theorem get_read_tasks_partition_witness:
  "(1::int) \<le> 2
   \<and> (\<exists>tasks. get_read_tasks ex_self 2 = Inr tasks
         \<and> int (length tasks) \<le> min 3 2
         \<and> concat (map (\<lambda>t. cl_fragment_ids (read_fn t)) tasks) = [0, 1, 2])"
  using get_read_tasks_partition [of 2 ex_self]
  by (simp add: ex_fragment_ids ex_fragment_count)

text \<open>
  Claim C4. For a requested parallelism \<open>P\<close> of at least 1, the numbers of fragments of any
  two read tasks returned differ by at most one, and the identifiers of each task are a
  contiguous slice of the dataset's list of fragment identifiers.
\<close>

theorem get_read_tasks_balanced:
  assumes "1 \<le> P"
  shows "\<exists>tasks. get_read_tasks self P = Inr tasks
           \<and> (\<forall>t1 \<in> set tasks. \<forall>t2 \<in> set tasks.
                 length (cl_fragment_ids (read_fn t1))
                   \<le> length (cl_fragment_ids (read_fn t2)) + 1)
           \<and> (\<forall>t \<in> set tasks. \<exists>st en.
                 cl_fragment_ids (read_fn t)
                   = slice (map fragment_id (get_fragments (lance_ds self))) st en)"
proof -
  let ?frs = "get_fragments (lance_ds self)"
  let ?ss = "split_sizes (length ?frs) (nat P)"
  let ?gs = "slices ?frs ?ss"
  let ?tasks = "map (group_read_task self) (filter (\<lambda>g. g \<noteq> []) ?gs)"
  have n: "0 < nat P" using assms by simp
  have tasks: "get_read_tasks self P = Inr ?tasks"
    using assms get_read_tasks_positive [of P self] by simp
  have lens: "map length ?gs = ?ss"
    using n by (simp add: map_length_slices sum_split_sizes)
  have size: "length (cl_fragment_ids (read_fn t)) \<in> set ?ss" if "t \<in> set ?tasks" for t
  proof -
    from that obtain g where g: "g \<in> set ?gs" "t = group_read_task self g"
      by auto
    then have "length g \<in> set (map length ?gs)" by simp
    then show ?thesis by (simp add: g(2) task_ids_group lens)
  qed
  have near: "length (cl_fragment_ids (read_fn t1)) \<le> length (cl_fragment_ids (read_fn t2)) + 1"
    if "t1 \<in> set ?tasks" "t2 \<in> set ?tasks" for t1 t2
    using set_split_sizes [OF size [OF that(1)]] set_split_sizes [OF size [OF that(2)]]
    by linarith
  have contiguous: "\<exists>st en. cl_fragment_ids (read_fn t) = slice (map fragment_id ?frs) st en"
    if "t \<in> set ?tasks" for t
  proof -
    from that obtain g where g: "g \<in> set ?gs" "t = group_read_task self g"
      by auto
    from slices_are_slices [OF g(1)] obtain st en where "g = slice ?frs st en" by blast
    then have "cl_fragment_ids (read_fn t) = slice (map fragment_id ?frs) st en"
      by (simp add: g(2) task_ids_group map_slice)
    then show ?thesis by blast
  qed
  from tasks near contiguous show ?thesis by blast
qed

theorem get_read_tasks_balanced_witness:
  "(1::int) \<le> 2
   \<and> ex_task01 \<in> set [ex_task01, ex_task2] \<and> ex_task2 \<in> set [ex_task01, ex_task2]
   \<and> length (cl_fragment_ids (read_fn ex_task01))
        \<le> length (cl_fragment_ids (read_fn ex_task2)) + 1
   \<and> (\<exists>st en. cl_fragment_ids (read_fn ex_task2) = slice [0, 1, 2] st en)"
  using get_read_tasks_balanced [of 2 ex_self]
  by (simp add: ex_tasks ex_fragment_ids)

text \<open>
  Claim C10. For a parallelism that is zero or negative, \<open>get_read_tasks\<close> raises the
  \<^verbatim>\<open>ValueError\<close> of the splitting primitive and returns no list of tasks.
\<close>

theorem get_read_tasks_nonpositive:
  assumes "P \<le> 0"
  shows "get_read_tasks self P = Inl (ValueError ''number sections must be larger than 0.'')"
  using assms by (simp add: get_read_tasks_def array_split_def)

theorem get_read_tasks_nonpositive_witness:
  "(- 3::int) \<le> 0
   \<and> get_read_tasks ex_self (- 3) = Inl (ValueError ''number sections must be larger than 0.'')"
  using get_read_tasks_nonpositive [of "- 3" ex_self] by simp

section \<open>Size estimation\<close>

text \<open>
  Claim C8. \<open>estimate_inmemory_data_size\<close> returns \<^verbatim>\<open>None\<close> for every datasource: never
  zero, never a number of bytes.
\<close>

theorem estimate_inmemory_data_size_unknown:
  "estimate_inmemory_data_size self = None"
  by (simp add: estimate_inmemory_data_size_def)

section \<open>Facts about the constructor, the tasks and a read\<close>

lemma ex_groups:
  "array_split (get_fragments (lance_ds ex_self)) 2 = Inr [[ex_frag0, ex_frag1], [ex_frag2]]"
  by code_simp

lemma get_read_tasks_eq:
  "array_split (get_fragments (lance_ds self)) P = Inr groups \<Longrightarrow>
   get_read_tasks self P = Inr (map (group_read_task self) (filter (\<lambda>g. g \<noteq> []) groups))"
  by (simp add: get_read_tasks_def read_tasks_loop_eq)

lemma get_read_tasks_members:
  assumes "get_read_tasks self P = Inr tasks" and "t \<in> set tasks"
  shows "\<exists>g. g \<noteq> [] \<and> t = group_read_task self g"
proof (cases "array_split (get_fragments (lance_ds self)) P")
  case (Inl e)
  with assms(1) show ?thesis by (simp add: get_read_tasks_def)
next
  case (Inr groups)
  from get_read_tasks_eq [OF Inr] assms show ?thesis by auto
qed

lemma group_read_task_captures:
  "cl_scanner_options (read_fn (group_read_task self g)) = scanner_options self"
  "cl_retry_params (read_fn (group_read_task self g)) = retry_params_of self"
  "cl_lance_ds (read_fn (group_read_task self g)) = lance_ds self"
  by (simp_all add: group_read_task_def create_read_task_def Let_def)

lemma group_read_task_metadata:
  "g \<noteq> [] \<Longrightarrow> metadata (group_read_task self g) =
     \<lparr>num_rows = sum_list (map count_rows g), schema = frag_schema (hd g),
      input_files = concat (map (\<lambda>fr. map path (data_files fr)) g),
      size_bytes = None, exec_stats = None\<rparr>"
  by (simp add: group_read_task_def create_read_task_def Let_def hd_conv_nth)

lemma init_success:
  assumes "LanceDatasource_init env h u c f sto so = (Inr self, h')"
  shows "lance_installed env"
    and "lance_open env u sto = Inr (lance_ds self)"
    and "scanner_options self = fst (or_new_dict h so)"
    and "retry_params_of self =
           \<lparr>description = ''read lance fragments'',
            match_errors = [''LanceError(IO)''] @ retried_io_errors env,
            max_attempts = 10, max_backoff_s = 32\<rparr>"
  using assms
  by (auto simp: LanceDatasource_init_def Let_def READ_FRAGMENTS_ERRORS_TO_RETRY_def
      READ_FRAGMENTS_MAX_ATTEMPTS_def READ_FRAGMENTS_RETRY_MAX_BACKOFF_SECONDS_def
      split: if_splits prod.splits sum.splits)

lemma init_heap:
  assumes "lance_installed env"
  shows "snd (LanceDatasource_init env h u c f sto so) =
     (case f of None \<Rightarrow> id
      | Some x \<Rightarrow> (\<lambda>h2. setitem h2 (fst (or_new_dict h so)) ''filter'' (PyStr x)))
       ((case c of None \<Rightarrow> id
         | Some x \<Rightarrow> (\<lambda>h1. setitem h1 (fst (or_new_dict h so)) ''columns'' (PyStrList x)))
          (snd (or_new_dict h so)))"
  using assms
  by (auto simp: LanceDatasource_init_def Let_def split: prod.splits sum.splits option.splits)

lemma setitem_same:
  "a < length h \<Longrightarrow> setitem h a k v ! a = AList.update k v (h ! a)"
  "length (setitem h a k v) = length h"
  by (simp_all add: setitem_def)

lemma or_new_dict_live:
  assumes "\<forall>a. so = Some a \<longrightarrow> a < length h"
  shows "fst (or_new_dict h so) < length (snd (or_new_dict h so))"
    and "map_of (snd (or_new_dict h so) ! fst (or_new_dict h so))
           = map_of (case so of None \<Rightarrow> [] | Some a \<Rightarrow> h ! a)"
  using assms by (auto simp: or_new_dict_def alloc_def split: option.splits)

lemma call_read_fn_lazy:
  assumes "1 \<le> max_attempts (cl_retry_params (read_fn t))"
  shows "call_read_fn t w =
     (Inr (Generator (cl_fragment_ids (read_fn t)) (cl_lance_ds (read_fn t))
            (cl_scanner_options (read_fn t))), w)"
  using assms
  by (simp add: call_read_fn_def read_fragments_with_retry_def call_with_retry_def
      read_fragments_def)

lemma execute_read_task_drain:
  assumes "1 \<le> max_attempts (cl_retry_params (read_fn t))"
  shows "execute_read_task t w =
     drain (Generator (cl_fragment_ids (read_fn t)) (cl_lance_ds (read_fn t))
             (cl_scanner_options (read_fn t))) w"
  by (simp add: execute_read_task_def call_read_fn_lazy [OF assms])

lemma scanner_world:
  "dicts (snd (scanner kw w)) = dicts w"
  "sleeps (snd (scanner kw w)) = sleeps w"
  "scan_calls (snd (scanner kw w)) = scan_calls w @ [kw]"
  by (simp_all add: scanner_def split: list.splits)

lemma drain_world:
  "dicts (snd (drain (Generator ids ds a) w))
     = setitem (dicts w) a ''fragments'' (PyFragments (map (get_fragment ds) ids))"
  "sleeps (snd (drain (Generator ids ds a) w)) = sleeps w"
  "scan_calls (snd (drain (Generator ids ds a) w))
     = scan_calls w @ [setitem (dicts w) a ''fragments''
                          (PyFragments (map (get_fragment ds) ids)) ! a]"
proof -
  let ?w1 = "w\<lparr>dicts := setitem (dicts w) a ''fragments''
                           (PyFragments (map (get_fragment ds) ids))\<rparr>"
  let ?kw = "dicts ?w1 ! a"
  have eq: "snd (drain (Generator ids ds a) w) = snd (scanner ?kw ?w1)"
    by (simp add: Let_def split: prod.splits scan_outcome.splits)
  show "dicts (snd (drain (Generator ids ds a) w))
     = setitem (dicts w) a ''fragments'' (PyFragments (map (get_fragment ds) ids))"
    by (simp only: eq scanner_world) simp
  show "sleeps (snd (drain (Generator ids ds a) w)) = sleeps w"
    by (simp only: eq scanner_world) simp
  show "scan_calls (snd (drain (Generator ids ds a) w))
     = scan_calls w @ [setitem (dicts w) a ''fragments''
                          (PyFragments (map (get_fragment ds) ids)) ! a]"
    by (simp only: eq scanner_world) simp
qed

section \<open>Block metadata\<close>

text \<open>
  Claim C5. For a datasource built by the constructor, whatever projection, filter and
  scanner options it was given, the tasks of \<open>get_read_tasks\<close> are those of the groups of
  the split that are not empty, in order, and the metadata of the task of a group has: as
  row count the sum of \<open>count_rows\<close> of the group's fragments (the count with no filter),
  as schema the schema of the group's first fragment, as input files the paths of the data
  files of the fragments, fragment after fragment in the order of each fragment, and no
  size in bytes and no execution statistics. The dataset is the one opened at the URI:
  the filter takes no part.
\<close>

theorem get_read_tasks_metadata:
  assumes "LanceDatasource_init env h u c f sto so = (Inr self, h')"
      and "array_split (get_fragments (lance_ds self)) P = Inr groups"
  shows "lance_open env u sto = Inr (lance_ds self)
       \<and> (\<exists>tasks. get_read_tasks self P = Inr tasks
            \<and> map (\<lambda>t. cl_fragment_ids (read_fn t)) tasks
                = map (map fragment_id) (filter (\<lambda>g. g \<noteq> []) groups)
            \<and> map metadata tasks
                = map (\<lambda>g. \<lparr>num_rows = sum_list (map count_rows g),
                             schema = frag_schema (hd g),
                             input_files = concat (map (\<lambda>fr. map path (data_files fr)) g),
                             size_bytes = None, exec_stats = None\<rparr>)
                      (filter (\<lambda>g. g \<noteq> []) groups))"
proof -
  let ?tasks = "map (group_read_task self) (filter (\<lambda>g. g \<noteq> []) groups)"
  have "get_read_tasks self P = Inr ?tasks"
    by (rule get_read_tasks_eq [OF assms(2)])
  moreover have "map (\<lambda>t. cl_fragment_ids (read_fn t)) ?tasks
      = map (map fragment_id) (filter (\<lambda>g. g \<noteq> []) groups)"
    by (simp add: o_def task_ids_group)
  moreover have "map metadata ?tasks
      = map (\<lambda>g. \<lparr>num_rows = sum_list (map count_rows g),
                   schema = frag_schema (hd g),
                   input_files = concat (map (\<lambda>fr. map path (data_files fr)) g),
                   size_bytes = None, exec_stats = None\<rparr>)
            (filter (\<lambda>g. g \<noteq> []) groups)"
    by (simp add: group_read_task_metadata)
  ultimately show ?thesis using init_success(2) [OF assms(1)] by blast
qed

theorem get_read_tasks_metadata_witness:
  "LanceDatasource_init ex_env [] ''memory://t'' (Some [''a'']) (Some ''a > 0'') None None
     = (Inr ex_self, ex_heap)
   \<and> array_split (get_fragments (lance_ds ex_self)) 2 = Inr [[ex_frag0, ex_frag1], [ex_frag2]]
   \<and> (\<exists>tasks. get_read_tasks ex_self 2 = Inr tasks
         \<and> map (\<lambda>t. cl_fragment_ids (read_fn t)) tasks = [[0, 1], [2]]
         \<and> map metadata tasks
             = [\<lparr>num_rows = 200, schema = [(''a'', ''int64'')],
                 input_files = [''data/0a.lance'', ''data/0b.lance'', ''data/1.lance''],
                 size_bytes = None, exec_stats = None\<rparr>,
                \<lparr>num_rows = 50, schema = [(''a'', ''int64'')],
                 input_files = [''data/2.lance''],
                 size_bytes = None, exec_stats = None\<rparr>])"
  using get_read_tasks_metadata [OF ex_init ex_groups] ex_init ex_groups
  by (simp add: ex_frag0_def ex_frag1_def ex_frag2_def)

section \<open>The retry parameters\<close>

text \<open>
  Claim C6. The constructor builds the retry parameters as the built-in list
  \<^verbatim>\<open>["LanceError(IO)"]\<close> followed by the list \<open>retried_io_errors\<close> that the data context
  holds at that moment, with at most 10 attempts and a backoff of at most 32 seconds; every
  read task made later carries this same record.
\<close>

theorem init_retry_params:
  assumes "LanceDatasource_init env h u c f sto so = (Inr self, h')"
  shows "retry_params_of self =
           \<lparr>description = ''read lance fragments'',
            match_errors = [''LanceError(IO)''] @ retried_io_errors env,
            max_attempts = 10, max_backoff_s = 32\<rparr>
       \<and> (\<forall>P tasks. get_read_tasks self P = Inr tasks \<longrightarrow>
             (\<forall>t \<in> set tasks. cl_retry_params (read_fn t) = retry_params_of self))"
proof -
  have "cl_retry_params (read_fn t) = retry_params_of self"
    if "get_read_tasks self P = Inr tasks" "t \<in> set tasks" for P tasks t
    using get_read_tasks_members [OF that] by (auto simp: group_read_task_captures)
  with init_success(4) [OF assms] show ?thesis by blast
qed

theorem init_retry_params_witness:
  "LanceDatasource_init ex_env [] ''memory://t'' (Some [''a'']) (Some ''a > 0'') None None
     = (Inr ex_self, ex_heap)
   \<and> retry_params_of ex_self =
       \<lparr>description = ''read lance fragments'',
        match_errors = [''LanceError(IO)'', ''AWS Error NETWORK_CONNECTION''],
        max_attempts = 10, max_backoff_s = 32\<rparr>
   \<and> get_read_tasks ex_self 2 = Inr [ex_task01, ex_task2]
   \<and> ex_task2 \<in> set [ex_task01, ex_task2]
   \<and> cl_retry_params (read_fn ex_task2) = retry_params_of ex_self"
  using init_retry_params [OF ex_init] ex_init ex_tasks
  by (simp add: ex_env_def)

section \<open>The scanner options\<close>

lemma init_merged:
  assumes "LanceDatasource_init env h u c f sto so = (Inr self, h')"
      and "\<forall>a. so = Some a \<longrightarrow> a < length h"
  shows "scanner_options self < length h'"
    and "map_of (h' ! scanner_options self)
           = map_of (case so of None \<Rightarrow> [] | Some a \<Rightarrow> h ! a)
               ++ (case c of None \<Rightarrow> Map.empty | Some x \<Rightarrow> [''columns'' \<mapsto> PyStrList x])
               ++ (case f of None \<Rightarrow> Map.empty | Some x \<Rightarrow> [''filter'' \<mapsto> PyStr x])"
proof -
  let ?a = "fst (or_new_dict h so)"
  let ?h1 = "snd (or_new_dict h so)"
  have a: "scanner_options self = ?a" by (rule init_success(3) [OF assms(1)])
  have live: "?a < length ?h1" by (rule or_new_dict_live(1) [OF assms(2)])
  have base: "map_of (?h1 ! ?a) = map_of (case so of None \<Rightarrow> [] | Some a \<Rightarrow> h ! a)"
    by (rule or_new_dict_live(2) [OF assms(2)])
  have h': "h' = snd (LanceDatasource_init env h u c f sto so)"
    by (simp add: assms(1))
  note heap = init_heap [OF init_success(1) [OF assms(1)], of h u c f sto so]
  show "scanner_options self < length h'"
    unfolding h' heap a using live by (cases c; cases f) (simp_all add: setitem_same)
  show "map_of (h' ! scanner_options self)
           = map_of (case so of None \<Rightarrow> [] | Some a \<Rightarrow> h ! a)
               ++ (case c of None \<Rightarrow> Map.empty | Some x \<Rightarrow> [''columns'' \<mapsto> PyStrList x])
               ++ (case f of None \<Rightarrow> Map.empty | Some x \<Rightarrow> [''filter'' \<mapsto> PyStr x])"
    unfolding h' heap a using live base
    by (cases c; cases f) (simp_all add: setitem_same update_conv')
qed

text \<open>
  Claim C7. After the constructor, the options dictionary of the datasource holds the
  items of the caller's dictionary (none when there was no dictionary), overridden by the
  projection under \<^verbatim>\<open>columns\<close> and by the filter under \<^verbatim>\<open>filter\<close> when they are given.
  Every task scans with these options: in a world where the dictionary still agrees with
  that content on every key but \<^verbatim>\<open>fragments\<close>, the keyword arguments of the scan of a
  task are that content with the fragments of the task's group under \<^verbatim>\<open>fragments\<close>.
\<close>

theorem init_merges_scan_options:
  assumes "LanceDatasource_init env h u c f sto so = (Inr self, h')"
      and "\<forall>a. so = Some a \<longrightarrow> a < length h"
      and "get_read_tasks self P = Inr tasks" and "t \<in> set tasks"
      and "scanner_options self < length (dicts w)"
      and "\<forall>k. k \<noteq> ''fragments'' \<longrightarrow>
             map_of (dicts w ! scanner_options self) k = map_of (h' ! scanner_options self) k"
  shows "map_of (h' ! scanner_options self)
           = map_of (case so of None \<Rightarrow> [] | Some a \<Rightarrow> h ! a)
               ++ (case c of None \<Rightarrow> Map.empty | Some x \<Rightarrow> [''columns'' \<mapsto> PyStrList x])
               ++ (case f of None \<Rightarrow> Map.empty | Some x \<Rightarrow> [''filter'' \<mapsto> PyStr x])
       \<and> (\<exists>kwargs. scan_calls (snd (execute_read_task t w)) = scan_calls w @ [kwargs]
             \<and> map_of kwargs
                 = (map_of (h' ! scanner_options self))
                     (''fragments'' \<mapsto>
                        PyFragments (map (get_fragment (lance_ds self))
                                       (cl_fragment_ids (read_fn t)))))"
proof -
  let ?a = "scanner_options self"
  let ?frs = "PyFragments (map (get_fragment (lance_ds self)) (cl_fragment_ids (read_fn t)))"
  from get_read_tasks_members [OF assms(3,4)]
  obtain g where g: "t = group_read_task self g" by blast
  have cap: "cl_scanner_options (read_fn t) = ?a" "cl_lance_ds (read_fn t) = lance_ds self"
    "cl_retry_params (read_fn t) = retry_params_of self"
    by (simp_all add: g group_read_task_captures)
  have "1 \<le> max_attempts (cl_retry_params (read_fn t))"
    by (simp add: cap init_success(4) [OF assms(1)])
  then have ex: "execute_read_task t w
      = drain (Generator (cl_fragment_ids (read_fn t)) (lance_ds self) ?a) w"
    by (simp add: execute_read_task_drain cap)
  let ?kw = "setitem (dicts w) ?a ''fragments'' ?frs ! ?a"
  have calls: "scan_calls (snd (execute_read_task t w)) = scan_calls w @ [?kw]"
    by (simp only: ex drain_world)
  have "map_of ?kw = (map_of (dicts w ! ?a))(''fragments'' \<mapsto> ?frs)"
    using assms(5) by (simp add: setitem_same update_conv')
  also have "\<dots> = (map_of (h' ! ?a))(''fragments'' \<mapsto> ?frs)"
    using assms(6) by (auto simp: fun_eq_iff)
  finally have "map_of ?kw = (map_of (h' ! ?a))(''fragments'' \<mapsto> ?frs)" .
  with calls init_merged(2) [OF assms(1,2)] show ?thesis by blast
qed

lemma ex_init_caller:
  "LanceDatasource_init ex_env ex_caller_heap ''memory://t'' (Some [''a'']) None None (Some 0)
     = (Inr ex_self, [[(''columns'', PyStrList [''a'']), (''limit'', PyInt 10)]])"
  by (simp add: LanceDatasource_init_def ex_env_def or_new_dict_def alloc_def setitem_def
      ex_self_def ex_retry_params_def ex_caller_heap_def READ_FRAGMENTS_ERRORS_TO_RETRY_def
      READ_FRAGMENTS_MAX_ATTEMPTS_def READ_FRAGMENTS_RETRY_MAX_BACKOFF_SECONDS_def)

lemma ex_task2_scan:
  "scan_calls (snd (execute_read_task ex_task2 ex_caller_world))
     = [[(''columns'', PyStrList [''a'']), (''limit'', PyInt 10),
         (''fragments'', PyFragments [Some ex_frag2])]]"
  by code_simp

lemma ex_task2_fragments:
  "map (get_fragment (lance_ds ex_self)) (cl_fragment_ids (read_fn ex_task2)) = [Some ex_frag2]"
  by code_simp

theorem init_merges_scan_options_witness:
  "LanceDatasource_init ex_env ex_caller_heap ''memory://t'' (Some [''a'']) None None (Some 0)
     = (Inr ex_self, dicts ex_caller_world)
   \<and> (0::addr) < length ex_caller_heap
   \<and> get_read_tasks ex_self 2 = Inr [ex_task01, ex_task2]
   \<and> ex_task2 \<in> set [ex_task01, ex_task2]
   \<and> scanner_options ex_self < length (dicts ex_caller_world)
   \<and> map_of (ex_caller_heap ! 0) ''columns'' = Some (PyStrList [''z''])
   \<and> map_of (dicts ex_caller_world ! scanner_options ex_self) ''columns''
       = Some (PyStrList [''a''])
   \<and> map_of (dicts ex_caller_world ! scanner_options ex_self) ''limit'' = Some (PyInt 10)
   \<and> (\<exists>kwargs. scan_calls (snd (execute_read_task ex_task2 ex_caller_world)) = [kwargs]
         \<and> map_of kwargs ''columns'' = Some (PyStrList [''a''])
         \<and> map_of kwargs ''limit'' = Some (PyInt 10)
         \<and> map_of kwargs ''fragments'' = Some (PyFragments [Some ex_frag2]))"
proof -
  have init: "LanceDatasource_init ex_env ex_caller_heap ''memory://t'' (Some [''a'']) None
      None (Some 0) = (Inr ex_self, dicts ex_caller_world)"
    by (simp add: ex_init_caller ex_caller_world_def)
  have live0: "\<forall>a. Some (0::addr) = Some a \<longrightarrow> a < length ex_caller_heap"
    by (simp add: ex_caller_heap_def)
  have mem: "ex_task2 \<in> set [ex_task01, ex_task2]" by simp
  have live: "scanner_options ex_self < length (dicts ex_caller_world)"
    by (simp add: ex_self_def ex_caller_world_def)
  have same: "\<forall>k. k \<noteq> ''fragments'' \<longrightarrow>
         map_of (dicts ex_caller_world ! scanner_options ex_self) k
           = map_of (dicts ex_caller_world ! scanner_options ex_self) k"
    by simp
  have vals: "map_of (ex_caller_heap ! 0) ''columns'' = Some (PyStrList [''z''])"
    "map_of (dicts ex_caller_world ! scanner_options ex_self) ''columns''
       = Some (PyStrList [''a''])"
    "map_of (dicts ex_caller_world ! scanner_options ex_self) ''limit'' = Some (PyInt 10)"
    by (simp_all add: ex_caller_heap_def ex_caller_world_def ex_self_def)
  from init_merges_scan_options [OF init live0 ex_tasks mem live same]
  show ?thesis
    using init ex_tasks live vals
    by (simp add: ex_task2_scan ex_task2_fragments ex_caller_heap_def)
qed

text \<open>
  Claim C9, as stated, fails for a caller's dictionary that is empty: \<^verbatim>\<open>scanner_options
  or {}\<close> then makes a new dictionary. The caller passes the empty dictionary at address 0
  with the projection \<^verbatim>\<open>["a"]\<close>; the datasource stores address 1, and the caller's
  dictionary stays empty.
\<close>

theorem init_empty_options_counterexample:
  "LanceDatasource_init ex_env [[]] ''memory://t'' (Some [''a'']) None None (Some 0)
     = (Inr (ex_self\<lparr>scanner_options := 1\<rparr>), [[], [(''columns'', PyStrList [''a''])]])"
  by (simp add: LanceDatasource_init_def ex_env_def or_new_dict_def alloc_def setitem_def
      ex_self_def ex_retry_params_def READ_FRAGMENTS_ERRORS_TO_RETRY_def
      READ_FRAGMENTS_MAX_ATTEMPTS_def READ_FRAGMENTS_RETRY_MAX_BACKOFF_SECONDS_def)

text \<open>
  Claim C9, amended. When the \<^verbatim>\<open>lance\<close> module is installed and the caller passes a
  dictionary that is not empty, the constructor allocates nothing and writes the
  projection and the filter, when given, into the caller's own dictionary (also when the
  opening of the dataset raises afterwards); a datasource that is built stores the address
  of that dictionary, and every read task it makes captures the same address.
\<close>

theorem init_stores_caller_options:
  assumes "lance_installed env" and "a < length h" and "h ! a \<noteq> []"
  shows "snd (LanceDatasource_init env h u c f sto (Some a))
           = h[a := (case f of None \<Rightarrow> id | Some x \<Rightarrow> AList.update ''filter'' (PyStr x))
                      ((case c of None \<Rightarrow> id
                        | Some x \<Rightarrow> AList.update ''columns'' (PyStrList x)) (h ! a))]
       \<and> (\<forall>self. fst (LanceDatasource_init env h u c f sto (Some a)) = Inr self \<longrightarrow>
             scanner_options self = a
             \<and> (\<forall>P tasks. get_read_tasks self P = Inr tasks \<longrightarrow>
                   (\<forall>t \<in> set tasks. cl_scanner_options (read_fn t) = a)))"
proof -
  have new: "or_new_dict h (Some a) = (a, h)"
    using assms(3) by (simp add: or_new_dict_def)
  have heap: "snd (LanceDatasource_init env h u c f sto (Some a))
           = h[a := (case f of None \<Rightarrow> id | Some x \<Rightarrow> AList.update ''filter'' (PyStr x))
                      ((case c of None \<Rightarrow> id
                        | Some x \<Rightarrow> AList.update ''columns'' (PyStrList x)) (h ! a))]"
    unfolding init_heap [OF assms(1)] new using assms(2)
    by (cases c; cases f) (simp_all add: setitem_def)
  have shared: "scanner_options self = a
             \<and> (\<forall>P tasks. get_read_tasks self P = Inr tasks \<longrightarrow>
                   (\<forall>t \<in> set tasks. cl_scanner_options (read_fn t) = a))"
    if "fst (LanceDatasource_init env h u c f sto (Some a)) = Inr self" for self
  proof -
    from that have "LanceDatasource_init env h u c f sto (Some a)
        = (Inr self, snd (LanceDatasource_init env h u c f sto (Some a)))"
      by (simp add: prod_eq_iff)
    from init_success(3) [OF this] have a: "scanner_options self = a" by (simp add: new)
    have "cl_scanner_options (read_fn t) = a"
      if "get_read_tasks self P = Inr tasks" "t \<in> set tasks" for P tasks t
      using get_read_tasks_members [OF that] by (auto simp: group_read_task_captures a)
    with a show ?thesis by blast
  qed
  from heap shared show ?thesis by blast
qed

theorem init_stores_caller_options_witness:
  "lance_installed ex_env
   \<and> 0 < length ex_caller_heap
   \<and> ex_caller_heap ! 0 \<noteq> []
   \<and> snd (LanceDatasource_init ex_env ex_caller_heap ''memory://t'' (Some [''a'']) None None
            (Some 0))
       = [[(''columns'', PyStrList [''a'']), (''limit'', PyInt 10)]]
   \<and> fst (LanceDatasource_init ex_env ex_caller_heap ''memory://t'' (Some [''a'']) None None
            (Some 0)) = Inr ex_self
   \<and> scanner_options ex_self = 0
   \<and> get_read_tasks ex_self 2 = Inr [ex_task01, ex_task2]
   \<and> cl_scanner_options (read_fn ex_task01) = 0
   \<and> cl_scanner_options (read_fn ex_task2) = 0"
proof -
  have inst: "lance_installed ex_env" by (simp add: ex_env_def)
  have live: "0 < length ex_caller_heap" by (simp add: ex_caller_heap_def)
  have nonempty: "ex_caller_heap ! 0 \<noteq> []" by (simp add: ex_caller_heap_def)
  from init_stores_caller_options [OF inst live nonempty, of "''memory://t''" "Some [''a'']"
      None None]
  show ?thesis
    using inst live nonempty ex_tasks by (simp add: ex_init_caller)
qed

lemma ex_task2_heap:
  "dicts (snd (execute_read_task ex_task2 ex_world))
     = [[(''columns'', PyStrList [''a'']), (''filter'', PyStr ''a > 0''),
         (''fragments'', PyFragments [Some ex_frag2])]]"
  by code_simp

text \<open>
  Claim C2, as stated, fails: the read function of a task captures the address of the
  datasource's own options dictionary, not a copy, and running the task writes the
  fragments of its group into that dictionary, which the datasource and the other task
  share.
\<close>

theorem read_task_options_shared_counterexample:
  "LanceDatasource_init ex_env [] ''memory://t'' (Some [''a'']) (Some ''a > 0'') None None
     = (Inr ex_self, ex_heap)
   \<and> get_read_tasks ex_self 2 = Inr [ex_task01, ex_task2]
   \<and> cl_scanner_options (read_fn ex_task01) = scanner_options ex_self
   \<and> cl_scanner_options (read_fn ex_task2) = scanner_options ex_self
   \<and> dicts ex_world ! scanner_options ex_self
       = [(''columns'', PyStrList [''a'']), (''filter'', PyStr ''a > 0'')]
   \<and> dicts (snd (execute_read_task ex_task01 ex_world)) ! scanner_options ex_self
       = [(''columns'', PyStrList [''a'']), (''filter'', PyStr ''a > 0''),
          (''fragments'', PyFragments [Some ex_frag0, Some ex_frag1])]"
proof -
  have "cl_scanner_options (read_fn ex_task01) = scanner_options ex_self"
    "cl_scanner_options (read_fn ex_task2) = scanner_options ex_self"
    by (simp_all add: ex_task01_def ex_task2_def ex_self_def)
  moreover have "dicts ex_world ! scanner_options ex_self
       = [(''columns'', PyStrList [''a'']), (''filter'', PyStr ''a > 0'')]"
    by (simp add: ex_world_def ex_heap_def ex_self_def)
  moreover have "dicts (snd (execute_read_task ex_task01 ex_world)) ! scanner_options ex_self
       = [(''columns'', PyStrList [''a'']), (''filter'', PyStr ''a > 0''),
          (''fragments'', PyFragments [Some ex_frag0, Some ex_frag1])]"
    by code_simp
  ultimately show ?thesis using ex_init ex_tasks by simp
qed

text \<open>
  Claim C2, amended. Every read task of a datasource built by the constructor captures
  the address of the datasource's options dictionary itself. Running the task (calling
  its read function and iterating the result to the end) changes the heap in one place
  only: in that shared dictionary, the key \<^verbatim>\<open>fragments\<close> gets the fragments resolved
  from the identifiers of the task.
\<close>

theorem read_task_shares_scan_options:
  assumes "LanceDatasource_init env h u c f sto so = (Inr self, h')"
      and "get_read_tasks self P = Inr tasks" and "t \<in> set tasks"
  shows "cl_scanner_options (read_fn t) = scanner_options self
       \<and> dicts (snd (execute_read_task t w))
           = (dicts w)[scanner_options self :=
                AList.update ''fragments''
                  (PyFragments (map (get_fragment (lance_ds self)) (cl_fragment_ids (read_fn t))))
                  (dicts w ! scanner_options self)]"
proof -
  from get_read_tasks_members [OF assms(2,3)]
  obtain g where g: "t = group_read_task self g" by blast
  have cap: "cl_scanner_options (read_fn t) = scanner_options self"
    "cl_lance_ds (read_fn t) = lance_ds self"
    "cl_retry_params (read_fn t) = retry_params_of self"
    by (simp_all add: g group_read_task_captures)
  have "1 \<le> max_attempts (cl_retry_params (read_fn t))"
    by (simp add: cap init_success(4) [OF assms(1)])
  then have "execute_read_task t w
      = drain (Generator (cl_fragment_ids (read_fn t)) (lance_ds self) (scanner_options self)) w"
    by (simp add: execute_read_task_drain cap)
  then have "dicts (snd (execute_read_task t w))
      = setitem (dicts w) (scanner_options self) ''fragments''
          (PyFragments (map (get_fragment (lance_ds self)) (cl_fragment_ids (read_fn t))))"
    by (simp only: drain_world)
  with cap(1) show ?thesis by (simp add: setitem_def)
qed

theorem read_task_shares_scan_options_witness:
  "LanceDatasource_init ex_env [] ''memory://t'' (Some [''a'']) (Some ''a > 0'') None None
     = (Inr ex_self, ex_heap)
   \<and> get_read_tasks ex_self 2 = Inr [ex_task01, ex_task2]
   \<and> ex_task2 \<in> set [ex_task01, ex_task2]
   \<and> cl_scanner_options (read_fn ex_task2) = scanner_options ex_self
   \<and> dicts (snd (execute_read_task ex_task2 ex_world))
       = [[(''columns'', PyStrList [''a'']), (''filter'', PyStr ''a > 0''),
           (''fragments'', PyFragments [Some ex_frag2])]]"
proof -
  have mem: "ex_task2 \<in> set [ex_task01, ex_task2]" by simp
  from read_task_shares_scan_options [OF ex_init ex_tasks mem, of ex_world]
  show ?thesis
    using ex_init ex_tasks by (simp add: ex_task2_heap)
qed

section \<open>Retrying a read\<close>

text \<open>
  The retry helper does retry a callable that itself raises: given the callable that
  iterates the generator inside the call, it sleeps once (at most 2 seconds) after the
  transient error of the first scan and returns the two tables of the second scan.
\<close>

lemma call_with_retry_retries_a_raising_callable:
  "fst (call_with_retry (drain_now (Generator [0, 1] ex_dataset 0)) ''read lance fragments''
          (match_errors ex_retry_params) 10 32 ex_world) = Inr [[[''row1'']], [[''row2'']]]
   \<and> sleeps (snd (call_with_retry (drain_now (Generator [0, 1] ex_dataset 0))
          ''read lance fragments'' (match_errors ex_retry_params) 10 32 ex_world)) = [2]"
  by code_simp

text \<open>
  Claim C1 fails on the code. \<^verbatim>\<open>_read_fragments\<close> is a generator function, so the callable
  given to \<open>call_with_retry\<close> returns a generator without running any step of the read,
  and never raises; the steps run when the engine iterates the generator, outside the
  retry helper. For the task of fragments 0 and 1 and a storage whose first scan yields a
  batch and then raises an error containing \<^verbatim>\<open>LanceError(IO)\<close>, which the retry parameters
  match, with 10 attempts allowed: the read yields the one table and ends with that error
  at its first occurrence, with no sleep and no second scan.
\<close>

theorem transient_error_not_retried:
  "LanceDatasource_init ex_env [] ''memory://t'' (Some [''a'']) (Some ''a > 0'') None None
     = (Inr ex_self, ex_heap)
   \<and> get_read_tasks ex_self 2 = Inr [ex_task01, ex_task2]
   \<and> is_retryable (match_errors (cl_retry_params (read_fn ex_task01))) ex_io_error
   \<and> max_attempts (cl_retry_params (read_fn ex_task01)) = 10
   \<and> fst (execute_read_task ex_task01 ex_world) = ([[[''row1'']]], Some ex_io_error)
   \<and> sleeps (snd (execute_read_task ex_task01 ex_world)) = []
   \<and> scans (snd (execute_read_task ex_task01 ex_world))
       = [Reader [Inr [''row1''], Inr [''row2'']]]"
proof -
  have "is_retryable (match_errors (cl_retry_params (read_fn ex_task01))) ex_io_error"
    by code_simp
  moreover have "max_attempts (cl_retry_params (read_fn ex_task01)) = 10"
    by (simp add: ex_task01_def ex_retry_params_def)
  moreover have "fst (execute_read_task ex_task01 ex_world) = ([[[''row1'']]], Some ex_io_error)"
    by code_simp
  moreover have "sleeps (snd (execute_read_task ex_task01 ex_world)) = []"
    by code_simp
  moreover have "scans (snd (execute_read_task ex_task01 ex_world))
       = [Reader [Inr [''row1''], Inr [''row2'']]]"
    by code_simp
  ultimately show ?thesis using ex_init ex_tasks by simp
qed

end
